theory Spec2Isabelle
  imports Main "HOL-Library.Word" "HOL-Library.Product_Lexorder"
begin

section \<open>Python values\<close>

text \<open>
  The module \<open>mongodb_config.py\<close> declares five MongoEngine document classes, their
  \<open>to_dict\<close> and \<open>save\<close> methods, and the utilities \<open>init_mongodb\<close>,
  \<open>create_default_users\<close> and \<open>get_database_stats\<close>. The values that flow through
  them are object identifiers, naive datetimes, strings, booleans, integers, floats and a
  list of strings.
\<close>

text \<open>An \<open>ObjectId\<close> is kept by its 24-digit hexadecimal text, which is what \<open>str\<close> returns.\<close>

datatype objectid = ObjectId string

fun objectid_hex :: "objectid \<Rightarrow> string" where
  "objectid_hex (ObjectId h) = h"

text \<open>\<open>str(x)\<close> for a field that holds an \<open>ObjectId\<close> or \<open>None\<close>.\<close>

fun py_str :: "objectid option \<Rightarrow> string" where
  "py_str None = ''None''"
| "py_str (Some i) = objectid_hex i"

text \<open>
  A naive \<open>datetime\<close>, as \<open>datetime.utcnow()\<close> returns and a \<open>DateTimeField\<close> stores.
  Python compares naive datetimes field by field, from the year down to the microsecond.
\<close>

record datetime =
  year :: nat
  month :: nat
  day :: nat
  hour :: nat
  minute :: nat
  second :: nat
  microsecond :: nat

definition dt_key :: "datetime \<Rightarrow> nat \<times> nat \<times> nat \<times> nat \<times> nat \<times> nat \<times> nat" where
  "dt_key d = (year d, month d, day d, hour d, minute d, second d, microsecond d)"

definition dt_le :: "datetime \<Rightarrow> datetime \<Rightarrow> bool" where
  "dt_le a b = (dt_key a \<le> dt_key b)"

text \<open>
  \<open>datetime.isoformat()\<close> of a naive datetime: \<open>YYYY-MM-DDTHH:MM:SS\<close>, followed by
  \<open>.ffffff\<close> when the microsecond is not zero. \<open>zfill k n\<close> is the decimal text of
  \<open>n\<close> in \<open>k\<close> digits, which is exact for the ranges a datetime allows.
\<close>

fun zfill :: "nat \<Rightarrow> nat \<Rightarrow> string" where
  "zfill 0 n = []"
| "zfill (Suc k) n = zfill k (n div 10) @ [''0123456789'' ! (n mod 10)]"

definition isoformat :: "datetime \<Rightarrow> string" where
  "isoformat d =
     zfill 4 (year d) @ ''-'' @ zfill 2 (month d) @ ''-'' @ zfill 2 (day d) @ ''T'' @
     zfill 2 (hour d) @ '':'' @ zfill 2 (minute d) @ '':'' @ zfill 2 (second d) @
     (if microsecond d = 0 then [] else ''.'' @ zfill 6 (microsecond d))"

text \<open>A Python float is a 64-bit IEEE double; it is kept by its bit pattern.\<close>

type_synonym pyfloat = "64 word"

text \<open>
  The values a dictionary built by this module can hold. \<open>PObjectId\<close> and \<open>PDatetime\<close>
  are the raw driver objects, which are not transport-safe.
\<close>

datatype pyval =
    PNone
  | PStr string
  | PBool bool
  | PInt int
  | PFloat pyfloat
  | PList "pyval list"
  | PObjectId objectid
  | PDatetime datetime

text \<open>A \<open>dict\<close> literal: the keys in the order they are written, each with its value.\<close>

type_synonym pydict = "(string \<times> pyval) list"

fun is_raw_datetime :: "pyval \<Rightarrow> bool" where
  "is_raw_datetime (PDatetime d) = True"
| "is_raw_datetime v = False"

text \<open>A field that passes through unchanged: \<open>None\<close> when unset, the value otherwise.\<close>

definition str_field :: "string option \<Rightarrow> pyval" where
  "str_field x = (case x of None \<Rightarrow> PNone | Some s \<Rightarrow> PStr s)"

definition bool_field :: "bool option \<Rightarrow> pyval" where
  "bool_field x = (case x of None \<Rightarrow> PNone | Some b \<Rightarrow> PBool b)"

definition int_field :: "int option \<Rightarrow> pyval" where
  "int_field x = (case x of None \<Rightarrow> PNone | Some i \<Rightarrow> PInt i)"

definition float_field :: "pyfloat option \<Rightarrow> pyval" where
  "float_field x = (case x of None \<Rightarrow> PNone | Some f \<Rightarrow> PFloat f)"

definition list_field :: "string list \<Rightarrow> pyval" where
  "list_field xs = PList (map PStr xs)"

text \<open>
  \<open>x.isoformat() if x else None\<close>: a datetime object is always true, \<open>None\<close> is false.
\<close>

definition iso_or_none :: "datetime option \<Rightarrow> pyval" where
  "iso_or_none x = (case x of None \<Rightarrow> PNone | Some d \<Rightarrow> PStr (isoformat d))"

text \<open>
  \<open>str(x) if x else None\<close>, as \<open>MedicationLog.to_dict\<close> renders \<open>reminder_id\<close>: an
  \<open>ObjectId\<close> is always true.
\<close>

definition str_or_none :: "objectid option \<Rightarrow> pyval" where
  "str_or_none x = (case x of None \<Rightarrow> PNone | Some i \<Rightarrow> PStr (py_str (Some i)))"

section \<open>The document classes\<close>

text \<open>
  Each class is a record of its declared fields, the implicit primary key \<open>id\<close> first.
  A field holds \<open>None\<close> until it is set. Field names carry a prefix for their class,
  since several classes declare \<open>user_id\<close>, \<open>is_active\<close>, \<open>created_at\<close> and
  \<open>updated_at\<close>.
\<close>

record User =
  u_id :: "objectid option"
  u_username :: "string option"
  u_email :: "string option"
  u_password_hash :: "string option"
  u_first_name :: "string option"
  u_last_name :: "string option"
  u_phone :: "string option"
  u_date_of_birth :: "datetime option"
  u_is_active :: "bool option"
  u_created_at :: "datetime option"
  u_last_login :: "datetime option"

record Medication =
  m_id :: "objectid option"
  m_user_id :: "objectid option"
  m_user_username :: "string option"
  m_name :: "string option"
  m_dosage :: "string option"
  m_frequency :: "string option"
  m_instructions :: "string option"
  m_duration :: "string option"
  m_start_date :: "datetime option"
  m_end_date :: "datetime option"
  m_is_active :: "bool option"
  m_created_at :: "datetime option"
  m_updated_at :: "datetime option"
  m_source :: "string option"
  m_confidence_score :: "pyfloat option"

record Reminder =
  r_id :: "objectid option"
  r_medication_id :: "objectid option"
  r_user_id :: "objectid option"
  r_time :: "string option"
  r_days_of_week :: "string list"
  r_is_active :: "bool option"
  r_last_sent :: "datetime option"
  r_next_due :: "datetime option"
  r_created_at :: "datetime option"
  r_updated_at :: "datetime option"

record MedicationLog =
  l_id :: "objectid option"
  l_user_id :: "objectid option"
  l_medication_id :: "objectid option"
  l_taken_at :: "datetime option"
  l_dosage_taken :: "string option"
  l_notes :: "string option"
  l_status :: "string option"
  l_reminder_id :: "objectid option"
  l_created_at :: "datetime option"

record PrescriptionUpload =
  p_id :: "objectid option"
  p_user_id :: "objectid option"
  p_filename :: "string option"
  p_original_filename :: "string option"
  p_file_path :: "string option"
  p_file_size :: "int option"
  p_mime_type :: "string option"
  p_extracted_text :: "string option"
  p_ocr_confidence :: "pyfloat option"
  p_processing_time :: "pyfloat option"
  p_medications_found :: "int option"
  p_medications_added :: "int option"
  p_processing_status :: "string option"
  p_error_message :: "string option"
  p_uploaded_at :: "datetime option"
  p_processed_at :: "datetime option"

subsection \<open>to_dict\<close>

definition User_to_dict :: "User \<Rightarrow> pydict" where
  "User_to_dict self =
     [(''id'', PStr (py_str (u_id self))),
      (''username'', str_field (u_username self)),
      (''email'', str_field (u_email self)),
      (''first_name'', str_field (u_first_name self)),
      (''last_name'', str_field (u_last_name self)),
      (''phone'', str_field (u_phone self)),
      (''date_of_birth'', iso_or_none (u_date_of_birth self)),
      (''is_active'', bool_field (u_is_active self)),
      (''created_at'', iso_or_none (u_created_at self)),
      (''last_login'', iso_or_none (u_last_login self))]"

definition Medication_to_dict :: "Medication \<Rightarrow> pydict" where
  "Medication_to_dict self =
     [(''id'', PStr (py_str (m_id self))),
      (''user_id'', PStr (py_str (m_user_id self))),
      (''name'', str_field (m_name self)),
      (''dosage'', str_field (m_dosage self)),
      (''frequency'', str_field (m_frequency self)),
      (''instructions'', str_field (m_instructions self)),
      (''duration'', str_field (m_duration self)),
      (''start_date'', iso_or_none (m_start_date self)),
      (''end_date'', iso_or_none (m_end_date self)),
      (''is_active'', bool_field (m_is_active self)),
      (''created_at'', iso_or_none (m_created_at self)),
      (''updated_at'', iso_or_none (m_updated_at self)),
      (''source'', str_field (m_source self)),
      (''confidence_score'', float_field (m_confidence_score self))]"

definition Reminder_to_dict :: "Reminder \<Rightarrow> pydict" where
  "Reminder_to_dict self =
     [(''id'', PStr (py_str (r_id self))),
      (''medication_id'', PStr (py_str (r_medication_id self))),
      (''user_id'', PStr (py_str (r_user_id self))),
      (''time'', str_field (r_time self)),
      (''days_of_week'', list_field (r_days_of_week self)),
      (''is_active'', bool_field (r_is_active self)),
      (''last_sent'', iso_or_none (r_last_sent self)),
      (''next_due'', iso_or_none (r_next_due self)),
      (''created_at'', iso_or_none (r_created_at self)),
      (''updated_at'', iso_or_none (r_updated_at self))]"

definition MedicationLog_to_dict :: "MedicationLog \<Rightarrow> pydict" where
  "MedicationLog_to_dict self =
     [(''id'', PStr (py_str (l_id self))),
      (''user_id'', PStr (py_str (l_user_id self))),
      (''medication_id'', PStr (py_str (l_medication_id self))),
      (''taken_at'', iso_or_none (l_taken_at self)),
      (''dosage_taken'', str_field (l_dosage_taken self)),
      (''notes'', str_field (l_notes self)),
      (''status'', str_field (l_status self)),
      (''reminder_id'', str_or_none (l_reminder_id self)),
      (''created_at'', iso_or_none (l_created_at self))]"

definition PrescriptionUpload_to_dict :: "PrescriptionUpload \<Rightarrow> pydict" where
  "PrescriptionUpload_to_dict self =
     [(''id'', PStr (py_str (p_id self))),
      (''user_id'', PStr (py_str (p_user_id self))),
      (''filename'', str_field (p_filename self)),
      (''original_filename'', str_field (p_original_filename self)),
      (''file_size'', int_field (p_file_size self)),
      (''mime_type'', str_field (p_mime_type self)),
      (''extracted_text'', str_field (p_extracted_text self)),
      (''ocr_confidence'', float_field (p_ocr_confidence self)),
      (''processing_time'', float_field (p_processing_time self)),
      (''medications_found'', int_field (p_medications_found self)),
      (''medications_added'', int_field (p_medications_added self)),
      (''processing_status'', str_field (p_processing_status self)),
      (''error_message'', str_field (p_error_message self)),
      (''uploaded_at'', iso_or_none (p_uploaded_at self)),
      (''processed_at'', iso_or_none (p_processed_at self))]"

subsection \<open>The stored fields of a record\<close>

text \<open>
  What a record stores, read off the field declarations of its class in declaration
  order: an \<open>ObjectIdField\<close> (and the primary key) is an identifier, a
  \<open>DateTimeField\<close> a timestamp, every other field is plain.
\<close>

datatype stored = IdentF "objectid option" | TimeF "datetime option" | PlainF pyval

definition User_stored :: "User \<Rightarrow> (string \<times> stored) list" where
  "User_stored self =
     [(''id'', IdentF (u_id self)),
      (''username'', PlainF (str_field (u_username self))),
      (''email'', PlainF (str_field (u_email self))),
      (''password_hash'', PlainF (str_field (u_password_hash self))),
      (''first_name'', PlainF (str_field (u_first_name self))),
      (''last_name'', PlainF (str_field (u_last_name self))),
      (''phone'', PlainF (str_field (u_phone self))),
      (''date_of_birth'', TimeF (u_date_of_birth self)),
      (''is_active'', PlainF (bool_field (u_is_active self))),
      (''created_at'', TimeF (u_created_at self)),
      (''last_login'', TimeF (u_last_login self))]"

definition Medication_stored :: "Medication \<Rightarrow> (string \<times> stored) list" where
  "Medication_stored self =
     [(''id'', IdentF (m_id self)),
      (''user_id'', IdentF (m_user_id self)),
      (''user_username'', PlainF (str_field (m_user_username self))),
      (''name'', PlainF (str_field (m_name self))),
      (''dosage'', PlainF (str_field (m_dosage self))),
      (''frequency'', PlainF (str_field (m_frequency self))),
      (''instructions'', PlainF (str_field (m_instructions self))),
      (''duration'', PlainF (str_field (m_duration self))),
      (''start_date'', TimeF (m_start_date self)),
      (''end_date'', TimeF (m_end_date self)),
      (''is_active'', PlainF (bool_field (m_is_active self))),
      (''created_at'', TimeF (m_created_at self)),
      (''updated_at'', TimeF (m_updated_at self)),
      (''source'', PlainF (str_field (m_source self))),
      (''confidence_score'', PlainF (float_field (m_confidence_score self)))]"

definition Reminder_stored :: "Reminder \<Rightarrow> (string \<times> stored) list" where
  "Reminder_stored self =
     [(''id'', IdentF (r_id self)),
      (''medication_id'', IdentF (r_medication_id self)),
      (''user_id'', IdentF (r_user_id self)),
      (''time'', PlainF (str_field (r_time self))),
      (''days_of_week'', PlainF (list_field (r_days_of_week self))),
      (''is_active'', PlainF (bool_field (r_is_active self))),
      (''last_sent'', TimeF (r_last_sent self)),
      (''next_due'', TimeF (r_next_due self)),
      (''created_at'', TimeF (r_created_at self)),
      (''updated_at'', TimeF (r_updated_at self))]"

definition MedicationLog_stored :: "MedicationLog \<Rightarrow> (string \<times> stored) list" where
  "MedicationLog_stored self =
     [(''id'', IdentF (l_id self)),
      (''user_id'', IdentF (l_user_id self)),
      (''medication_id'', IdentF (l_medication_id self)),
      (''taken_at'', TimeF (l_taken_at self)),
      (''dosage_taken'', PlainF (str_field (l_dosage_taken self))),
      (''notes'', PlainF (str_field (l_notes self))),
      (''status'', PlainF (str_field (l_status self))),
      (''reminder_id'', IdentF (l_reminder_id self)),
      (''created_at'', TimeF (l_created_at self))]"

definition PrescriptionUpload_stored :: "PrescriptionUpload \<Rightarrow> (string \<times> stored) list" where
  "PrescriptionUpload_stored self =
     [(''id'', IdentF (p_id self)),
      (''user_id'', IdentF (p_user_id self)),
      (''filename'', PlainF (str_field (p_filename self))),
      (''original_filename'', PlainF (str_field (p_original_filename self))),
      (''file_path'', PlainF (str_field (p_file_path self))),
      (''file_size'', PlainF (int_field (p_file_size self))),
      (''mime_type'', PlainF (str_field (p_mime_type self))),
      (''extracted_text'', PlainF (str_field (p_extracted_text self))),
      (''ocr_confidence'', PlainF (float_field (p_ocr_confidence self))),
      (''processing_time'', PlainF (float_field (p_processing_time self))),
      (''medications_found'', PlainF (int_field (p_medications_found self))),
      (''medications_added'', PlainF (int_field (p_medications_added self))),
      (''processing_status'', PlainF (str_field (p_processing_status self))),
      (''error_message'', PlainF (str_field (p_error_message self))),
      (''uploaded_at'', TimeF (p_uploaded_at self)),
      (''processed_at'', TimeF (p_processed_at self))]"

subsection \<open>Serialization as the specification words it\<close>

text \<open>
  The specification's \<open>serialize()\<close>: an identifier as a string, a timestamp as its
  ISO-8601 text or null when unset, every other field unchanged, and every stored field
  present under its own name.
\<close>

fun spec_render :: "stored \<Rightarrow> pyval" where
  "spec_render (IdentF x) = PStr (py_str x)"
| "spec_render (TimeF None) = PNone"
| "spec_render (TimeF (Some d)) = PStr (isoformat d)"
| "spec_render (PlainF v) = v"

definition spec_serialize :: "(string \<times> stored) list \<Rightarrow> pydict" where
  "spec_serialize fs = map (\<lambda>(k, f). (k, spec_render f)) fs"

text \<open>
  What the code does instead: the fields named in \<open>omitted\<close> are left out, and an unset
  \<open>reminder_id\<close> is null; the rest is as above.
\<close>

definition code_render :: "string \<Rightarrow> stored \<Rightarrow> pyval" where
  "code_render k f = (if k = ''reminder_id'' \<and> f = IdentF None then PNone else spec_render f)"

definition code_serialize :: "string list \<Rightarrow> (string \<times> stored) list \<Rightarrow> pydict" where
  "code_serialize omitted fs =
     map (\<lambda>(k, f). (k, code_render k f)) (filter (\<lambda>(k, f). k \<notin> set omitted) fs)"

text \<open>The timestamp fields of a record are all present in a dictionary, as text or null.\<close>

definition timestamps_rendered :: "(string \<times> stored) list \<Rightarrow> pydict \<Rightarrow> bool" where
  "timestamps_rendered fs d =
     list_all (\<lambda>(k, f). case f of TimeF t \<Rightarrow> map_of d k = Some (iso_or_none t) | _ \<Rightarrow> True) fs"

definition no_raw_datetime :: "pydict \<Rightarrow> bool" where
  "no_raw_datetime d = list_all (\<lambda>(k, v). \<not> is_raw_datetime v) d"

section \<open>Exceptions, the environment and the database\<close>

text \<open>
  The exceptions the library calls of the module raise; all are subclasses of
  \<open>Exception\<close>, the class the module's \<open>except\<close> clauses catch. A
  \<open>ValidationError\<close> carries, for each offending field, its name and a message.
\<close>

datatype exn =
    ValidationError "(string \<times> string) list"
  | NotUniqueError string
  | ConnectionFailure string
  | ServerSelectionTimeoutError string
  | AttributeError string

text \<open>\<open>str(e)\<close>, as the f-strings of the module print it.\<close>

fun exn_str :: "exn \<Rightarrow> string" where
  "exn_str (ValidationError errs) = ''ValidationError '' @ concat (map (\<lambda>(k, m). k @ '': '' @ m @ ''; '') errs)"
| "exn_str (NotUniqueError m) = m"
| "exn_str (ConnectionFailure m) = m"
| "exn_str (ServerSelectionTimeoutError m) = m"
| "exn_str (AttributeError m) = m"

text \<open>The keyword arguments of \<open>connect\<close>.\<close>

record connection_settings =
  cs_db :: string
  cs_host :: string
  cs_serverSelectionTimeoutMS :: int
  cs_connectTimeoutMS :: int
  cs_socketTimeoutMS :: int
  cs_maxPoolSize :: int
  cs_retryWrites :: bool

text \<open>
  What the world outside the process supplies: the two functions of
  \<open>werkzeug.security\<close>, the successive readings of the clock, the successive
  identifiers the driver generates, the syntax check of an \<open>EmailField\<close>, what
  opening a connection with given settings raises (if anything), and what the
  successive database operations raise (if anything).
\<close>

record env =
  generate_password_hash :: "string \<Rightarrow> string"
  check_password_hash :: "string \<Rightarrow> string \<Rightarrow> bool"
  utcnow :: "nat \<Rightarrow> datetime"
  new_objectid :: "nat \<Rightarrow> objectid"
  valid_email :: "string \<Rightarrow> bool"
  connect_error :: "connection_settings \<Rightarrow> exn option"
  server_error :: "nat \<Rightarrow> exn option"

text \<open>
  The state of the process and of the database: the registered default connection, the
  five collections, how many clock readings, identifiers and database operations have
  been consumed, and the lines printed so far.
\<close>

record world =
  connection :: "connection_settings option"
  users :: "User list"
  medications :: "Medication list"
  reminders :: "Reminder list"
  medication_logs :: "MedicationLog list"
  prescription_uploads :: "PrescriptionUpload list"
  clock_ticks :: nat
  oid_count :: nat
  op_count :: nat
  stdout :: "string list"

text \<open>A statement either raises or returns a value; either way it leaves a state.\<close>

type_synonym ('a, 's) result = "(exn + 'a) \<times> 's"

definition print :: "string \<Rightarrow> world \<Rightarrow> world" where
  "print line w = w\<lparr>stdout := stdout w @ [line]\<rparr>"

subsection \<open>The connection\<close>

definition MONGODB_URI :: string where
  "MONGODB_URI = ''mongodb://localhost:27017/''"

definition DATABASE_NAME :: string where
  "DATABASE_NAME = ''medimorph_db''"

text \<open>
  MongoEngine's \<open>disconnect()\<close> forgets the default connection, if there is one.
  Its \<open>connect(...)\<close> registers the settings as the default connection; it raises when
  a connection with other settings is still registered, or when the driver rejects the
  settings.
\<close>

definition disconnect :: "world \<Rightarrow> world" where
  "disconnect w = w\<lparr>connection := None\<rparr>"

definition connect :: "env \<Rightarrow> connection_settings \<Rightarrow> world \<Rightarrow> (unit, world) result" where
  "connect e cs w =
     (case connection w of
        Some old \<Rightarrow>
          if old = cs then (Inr (), w)
          else (Inl (ConnectionFailure
            ''A different connection with alias `default` was already registered. Use disconnect() first''), w)
      | None \<Rightarrow>
          (case connect_error e cs of
             Some err \<Rightarrow> (Inl err, w)
           | None \<Rightarrow> (Inr (), w\<lparr>connection := Some cs\<rparr>)))"

text \<open>The settings \<open>init_mongodb\<close> passes to \<open>connect\<close>.\<close>

definition init_settings :: connection_settings where
  "init_settings = \<lparr>cs_db = DATABASE_NAME, cs_host = MONGODB_URI,
     cs_serverSelectionTimeoutMS = 5000, cs_connectTimeoutMS = 10000,
     cs_socketTimeoutMS = 20000, cs_maxPoolSize = 50, cs_retryWrites = True\<rparr>"

text \<open>
  \<open>init_mongodb(app=None)\<close>: first the body of the \<open>try\<close>, then the function with its
  \<open>except Exception\<close> clause. The printed lines are kept without their leading
  pictograph.
\<close>

definition init_mongodb_try :: "env \<Rightarrow> 'app \<Rightarrow> world \<Rightarrow> (bool, world) result" where
  "init_mongodb_try e app w =
     (case connect e init_settings (disconnect w) of
        (Inl err, w') \<Rightarrow> (Inl err, w')
      | (Inr u, w') \<Rightarrow>
          (Inr True, print (''Connected to MongoDB: '' @ MONGODB_URI @ DATABASE_NAME) w'))"

definition init_mongodb :: "env \<Rightarrow> 'app \<Rightarrow> world \<Rightarrow> (bool, world) result" where
  "init_mongodb e app w =
     (case init_mongodb_try e app w of
        (Inl err, w') \<Rightarrow> (Inr False, print (''MongoDB connection failed: '' @ exn_str err) w')
      | (Inr b, w') \<Rightarrow> (Inr b, w'))"

subsection \<open>Database operations\<close>

text \<open>
  Every operation on a collection needs the default connection and a server that
  answers: without a registered connection MongoEngine raises \<open>ConnectionFailure\<close>,
  and the driver raises what the environment says for this operation.
\<close>

definition db_operation :: "env \<Rightarrow> world \<Rightarrow> (unit, world) result" where
  "db_operation e w =
     (case connection w of
        None \<Rightarrow> (Inl (ConnectionFailure ''You have not defined a default connection''), w)
      | Some cs \<Rightarrow>
          (case server_error e (op_count w) of
             Some err \<Rightarrow> (Inl err, w\<lparr>op_count := Suc (op_count w)\<rparr>)
           | None \<Rightarrow> (Inr (), w\<lparr>op_count := Suc (op_count w)\<rparr>)))"

text \<open>\<open>Cls.objects.count()\<close> on the collection \<open>coll\<close>.\<close>

definition objects_count :: "env \<Rightarrow> (world \<Rightarrow> 'd list) \<Rightarrow> world \<Rightarrow> (int, world) result" where
  "objects_count e coll w =
     (case db_operation e w of
        (Inl err, w') \<Rightarrow> (Inl err, w')
      | (Inr u, w') \<Rightarrow> (Inr (int (length (coll w'))), w'))"

text \<open>
  \<open>get_database_stats()\<close>: the dictionary literal evaluates its five counts in order;
  the first one that raises abandons the literal.
\<close>

definition get_database_stats_try :: "env \<Rightarrow> world \<Rightarrow> (pydict, world) result" where
  "get_database_stats_try e w =
     (case objects_count e users w of
        (Inl err, w1) \<Rightarrow> (Inl err, w1)
      | (Inr n1, w1) \<Rightarrow>
     (case objects_count e medications w1 of
        (Inl err, w2) \<Rightarrow> (Inl err, w2)
      | (Inr n2, w2) \<Rightarrow>
     (case objects_count e reminders w2 of
        (Inl err, w3) \<Rightarrow> (Inl err, w3)
      | (Inr n3, w3) \<Rightarrow>
     (case objects_count e medication_logs w3 of
        (Inl err, w4) \<Rightarrow> (Inl err, w4)
      | (Inr n4, w4) \<Rightarrow>
     (case objects_count e prescription_uploads w4 of
        (Inl err, w5) \<Rightarrow> (Inl err, w5)
      | (Inr n5, w5) \<Rightarrow>
          (Inr [(''users'', PInt n1), (''medications'', PInt n2), (''reminders'', PInt n3),
                (''medication_logs'', PInt n4), (''prescription_uploads'', PInt n5)], w5))))))"

definition get_database_stats :: "env \<Rightarrow> world \<Rightarrow> (pydict option, world) result" where
  "get_database_stats e w =
     (case get_database_stats_try e w of
        (Inl err, w') \<Rightarrow> (Inr None, print (''Error getting database stats: '' @ exn_str err) w')
      | (Inr stats, w') \<Rightarrow> (Inr (Some stats), w'))"

subsection \<open>Validation and persisting\<close>

text \<open>
  Modelled from the spec: MongoEngine's \<open>Document.validate\<close> and \<open>Document.save\<close>,
  which the classes inherit and which are not part of the module. The field constraints
  are those the classes declare (\<open>required\<close>, \<open>max_length\<close>, \<open>choices\<close>,
  \<open>unique\<close>); by section 4.2 a violated constraint fails at write time with a
  validation error identifying the offending field, and persisting inserts or overwrites
  the record and returns it with its identifier assigned.
\<close>

definition check_required :: "string \<Rightarrow> 'a option \<Rightarrow> (string \<times> string) list" where
  "check_required name v =
     (case v of None \<Rightarrow> [(name, ''Field is required'')] | Some x \<Rightarrow> [])"

text \<open>
  A \<open>StringField\<close>: \<open>required\<close>, then \<open>choices\<close> (the empty list when none is
  declared), then \<open>max_length\<close>.
\<close>

definition check_string ::
  "string \<Rightarrow> bool \<Rightarrow> string list \<Rightarrow> nat option \<Rightarrow> string option \<Rightarrow> (string \<times> string) list" where
  "check_string name required choices max_length v =
     (case v of
        None \<Rightarrow> if required then [(name, ''Field is required'')] else []
      | Some s \<Rightarrow>
          if choices \<noteq> [] \<and> s \<notin> set choices then [(name, ''Value must be one of the choices'')]
          else (case max_length of
                  None \<Rightarrow> []
                | Some n \<Rightarrow>
                    if n < length s then [(name, ''String value is too long'')] else []))"



definition Medication_validate :: "Medication \<Rightarrow> (string \<times> string) list" where
  "Medication_validate self =
     check_required ''user_id'' (m_user_id self) @
     check_string ''user_username'' True [] None (m_user_username self) @
     check_string ''name'' True [] (Some 100) (m_name self) @
     check_string ''dosage'' True [] (Some 50) (m_dosage self) @
     check_string ''frequency'' True [] (Some 50) (m_frequency self) @
     check_string ''instructions'' False [] (Some 500) (m_instructions self) @
     check_string ''duration'' False [] (Some 100) (m_duration self)"

definition Reminder_validate :: "Reminder \<Rightarrow> (string \<times> string) list" where
  "Reminder_validate self =
     check_required ''medication_id'' (r_medication_id self) @
     check_required ''user_id'' (r_user_id self) @
     check_string ''time'' True [] None (r_time self)"

definition MedicationLog_validate :: "MedicationLog \<Rightarrow> (string \<times> string) list" where
  "MedicationLog_validate self =
     check_required ''user_id'' (l_user_id self) @
     check_required ''medication_id'' (l_medication_id self) @
     check_string ''dosage_taken'' False [] (Some 50) (l_dosage_taken self) @
     check_string ''notes'' False [] (Some 500) (l_notes self) @
     check_string ''status'' False [''taken'', ''missed'', ''delayed''] None (l_status self)"

definition PrescriptionUpload_validate :: "PrescriptionUpload \<Rightarrow> (string \<times> string) list" where
  "PrescriptionUpload_validate self =
     check_required ''user_id'' (p_user_id self) @
     check_string ''filename'' True [] None (p_filename self) @
     check_string ''original_filename'' True [] None (p_original_filename self) @
     check_string ''file_path'' True [] None (p_file_path self) @
     check_string ''processing_status'' False
       [''pending'', ''processing'', ''completed'', ''failed''] None (p_processing_status self)"


definition no_unique_index :: "'d \<Rightarrow> 'd list \<Rightarrow> exn option" where
  "no_unique_index self stored = None"

text \<open>Overwriting the stored record that has this identifier, or inserting the record.\<close>

fun overwrite :: "('d \<Rightarrow> objectid option) \<Rightarrow> 'd \<Rightarrow> 'd list \<Rightarrow> 'd list" where
  "overwrite ident self [] = [self]"
| "overwrite ident self (d # ds) =
     (if ident d = ident self then self # ds else d # overwrite ident self ds)"

text \<open>
  \<open>Document.save\<close>, for a class given by its validation, the accessors of its
  identifier, its collection and its unique indexes: validate; then write, which fails
  on a duplicate unique key; a record without identifier is inserted under a fresh one.
\<close>

definition Document_save ::
  "('d \<Rightarrow> (string \<times> string) list) \<Rightarrow> ('d \<Rightarrow> objectid option) \<Rightarrow> (objectid \<Rightarrow> 'd \<Rightarrow> 'd) \<Rightarrow>
   (world \<Rightarrow> 'd list) \<Rightarrow> ('d list \<Rightarrow> world \<Rightarrow> world) \<Rightarrow> ('d \<Rightarrow> 'd list \<Rightarrow> exn option) \<Rightarrow>
   env \<Rightarrow> 'd \<Rightarrow> world \<Rightarrow> ('d, world) result" where
  "Document_save validate ident with_id coll put not_unique e self w =
     (case validate self of
        err # errs \<Rightarrow> (Inl (ValidationError (err # errs)), w)
      | [] \<Rightarrow>
          (case db_operation e w of
             (Inl err, w1) \<Rightarrow> (Inl err, w1)
           | (Inr u, w1) \<Rightarrow>
               (case not_unique self (coll w1) of
                  Some err \<Rightarrow> (Inl err, w1)
                | None \<Rightarrow>
                    (case ident self of
                       None \<Rightarrow>
                         (let self' = with_id (new_objectid e (oid_count w1)) self
                          in (Inr self',
                              put (coll w1 @ [self']) (w1\<lparr>oid_count := Suc (oid_count w1)\<rparr>)))
                     | Some i \<Rightarrow> (Inr self, put (overwrite ident self (coll w1)) w1)))))"


definition MedicationLog_save ::
  "env \<Rightarrow> MedicationLog \<Rightarrow> world \<Rightarrow> (MedicationLog, world) result" where
  "MedicationLog_save =
     Document_save MedicationLog_validate l_id (\<lambda>i d. d\<lparr>l_id := Some i\<rparr>) medication_logs
       (\<lambda>ds w. w\<lparr>medication_logs := ds\<rparr>) no_unique_index"

definition PrescriptionUpload_save ::
  "env \<Rightarrow> PrescriptionUpload \<Rightarrow> world \<Rightarrow> (PrescriptionUpload, world) result" where
  "PrescriptionUpload_save =
     Document_save PrescriptionUpload_validate p_id (\<lambda>i d. d\<lparr>p_id := Some i\<rparr>)
       prescription_uploads (\<lambda>ds w. w\<lparr>prescription_uploads := ds\<rparr>) no_unique_index"

text \<open>
  \<open>Medication.save\<close> and \<open>Reminder.save\<close> override \<open>save\<close>: they assign
  \<open>self.updated_at = datetime.utcnow()\<close> and then call \<open>super().save\<close>. The state
  they leave is the object \<open>self\<close> together with the world; when \<open>super().save\<close>
  raises, the assignment has already been made.
\<close>

definition Medication_save ::
  "env \<Rightarrow> Medication \<Rightarrow> world \<Rightarrow> (Medication, Medication \<times> world) result" where
  "Medication_save e self w =
     (let self1 = self\<lparr>m_updated_at := Some (utcnow e (clock_ticks w))\<rparr>;
          w1 = w\<lparr>clock_ticks := Suc (clock_ticks w)\<rparr>
      in case Document_save Medication_validate m_id (\<lambda>i d. d\<lparr>m_id := Some i\<rparr>) medications
                (\<lambda>ds w. w\<lparr>medications := ds\<rparr>) no_unique_index e self1 w1 of
           (Inl err, w2) \<Rightarrow> (Inl err, self1, w2)
         | (Inr self2, w2) \<Rightarrow> (Inr self2, self2, w2))"

definition Reminder_save ::
  "env \<Rightarrow> Reminder \<Rightarrow> world \<Rightarrow> (Reminder, Reminder \<times> world) result" where
  "Reminder_save e self w =
     (let self1 = self\<lparr>r_updated_at := Some (utcnow e (clock_ticks w))\<rparr>;
          w1 = w\<lparr>clock_ticks := Suc (clock_ticks w)\<rparr>
      in case Document_save Reminder_validate r_id (\<lambda>i d. d\<lparr>r_id := Some i\<rparr>) reminders
                (\<lambda>ds w. w\<lparr>reminders := ds\<rparr>) no_unique_index e self1 w1 of
           (Inl err, w2) \<Rightarrow> (Inl err, self1, w2)
         | (Inr self2, w2) \<Rightarrow> (Inr self2, self2, w2))"

subsection \<open>Passwords and the default users\<close>

definition set_password :: "env \<Rightarrow> string \<Rightarrow> User \<Rightarrow> User" where
  "set_password e password self =
     self\<lparr>u_password_hash := Some (generate_password_hash e password)\<rparr>"

text \<open>\<open>check_password_hash\<close> on a hash that was never set raises.\<close>

definition check_password :: "env \<Rightarrow> string \<Rightarrow> User \<Rightarrow> exn + bool" where
  "check_password e password self =
     (case u_password_hash self of
        None \<Rightarrow> Inl (AttributeError ''NoneType object has no attribute count'')
      | Some h \<Rightarrow> Inr (check_password_hash e h password))"

record seed =
  s_username :: string
  s_email :: string
  s_password :: string
  s_first_name :: string
  s_last_name :: string






section \<open>Predicates of the statements\<close>

text \<open>Whether an optional string has at most \<open>n\<close> characters.\<close>

definition within :: "nat \<Rightarrow> string option \<Rightarrow> bool" where
  "within n v = (case v of None \<Rightarrow> True | Some s \<Rightarrow> length s \<le> n)"

text \<open>A stored user already has the username of this seed.\<close>

definition present :: "world \<Rightarrow> seed \<Rightarrow> bool" where
  "present w user_data = list_ex (\<lambda>d. u_username d = Some (s_username user_data)) (users w)"


section \<open>Sample inputs\<close>

text \<open>Sample records.\<close>

definition sample_time :: datetime where
  "sample_time = \<lparr>year = 2024, month = 3, day = 9, hour = 7, minute = 5, second = 0,
     microsecond = 0\<rparr>"

definition sample_user :: User where
  "sample_user = \<lparr>u_id = Some (ObjectId ''65ec9a1f2b7c4d0012345678''),
     u_username = Some ''alice'', u_email = Some ''alice@x.com'',
     u_password_hash = Some ''pbkdf2:sha256:260000$salt$0123abcd'',
     u_first_name = Some ''Alice'', u_last_name = None, u_phone = None,
     u_date_of_birth = None, u_is_active = Some True,
     u_created_at = Some sample_time, u_last_login = None\<rparr>"

definition sample_log :: MedicationLog where
  "sample_log = \<lparr>l_id = Some (ObjectId ''65ec9a1f2b7c4d00123456aa''),
     l_user_id = Some (ObjectId ''65ec9a1f2b7c4d0012345678''),
     l_medication_id = Some (ObjectId ''65ec9a1f2b7c4d00123456bb''),
     l_taken_at = Some sample_time, l_dosage_taken = Some ''100mg'', l_notes = None,
     l_status = Some ''taken'', l_reminder_id = None, l_created_at = Some sample_time\<rparr>"

definition sample_medication :: Medication where
  "sample_medication = \<lparr>m_id = Some (ObjectId ''65ec9a1f2b7c4d00123456bb''),
     m_user_id = Some (ObjectId ''65ec9a1f2b7c4d0012345678''),
     m_user_username = Some ''alice'', m_name = Some ''Aspirin'', m_dosage = Some ''100mg'',
     m_frequency = Some ''daily'', m_instructions = None, m_duration = None,
     m_start_date = Some sample_time, m_end_date = None, m_is_active = Some True,
     m_created_at = Some sample_time, m_updated_at = Some sample_time,
     m_source = Some ''manual'', m_confidence_score = Some 0x3FF0000000000000\<rparr>"

definition sample_reminder :: Reminder where
  "sample_reminder = \<lparr>r_id = Some (ObjectId ''65ec9a1f2b7c4d00123456cc''),
     r_medication_id = Some (ObjectId ''65ec9a1f2b7c4d00123456bb''),
     r_user_id = Some (ObjectId ''65ec9a1f2b7c4d0012345678''),
     r_time = Some ''08:00'', r_days_of_week = [''monday'', ''friday''],
     r_is_active = Some True, r_last_sent = None, r_next_due = None,
     r_created_at = Some sample_time, r_updated_at = Some sample_time\<rparr>"

definition sample_upload :: PrescriptionUpload where
  "sample_upload = \<lparr>p_id = Some (ObjectId ''65ec9a1f2b7c4d00123456dd''),
     p_user_id = Some (ObjectId ''65ec9a1f2b7c4d0012345678''),
     p_filename = Some ''rx1.png'', p_original_filename = Some ''scan.png'',
     p_file_path = Some ''/uploads/rx1.png'', p_file_size = Some 2048,
     p_mime_type = Some ''image/png'', p_extracted_text = None, p_ocr_confidence = None,
     p_processing_time = None, p_medications_found = Some 0, p_medications_added = Some 0,
     p_processing_status = Some ''pending'', p_error_message = None,
     p_uploaded_at = Some sample_time, p_processed_at = None\<rparr>"

definition sample_env :: env where
  "sample_env = \<lparr>generate_password_hash = (\<lambda>p. ''scrypt:32768:8:1$'' @ rev p),
     check_password_hash = (\<lambda>h p. h = ''scrypt:32768:8:1$'' @ rev p),
     utcnow = (\<lambda>n. sample_time\<lparr>microsecond := Suc n\<rparr>),
     new_objectid = (\<lambda>n. ObjectId (''65ec9a1f2b7c4d0012'' @ zfill 6 n)),
     valid_email = (\<lambda>s. CHR ''@'' \<in> set s),
     connect_error = (\<lambda>cs. None),
     server_error = (\<lambda>n. None)\<rparr>"

definition sample_world :: world where
  "sample_world = \<lparr>connection = None, users = [], medications = [], reminders = [],
     medication_logs = [], prescription_uploads = [], clock_ticks = 0, oid_count = 0,
     op_count = 0, stdout = []\<rparr>"

definition other_settings :: connection_settings where
  "other_settings = \<lparr>cs_db = ''clinic'', cs_host = ''mongodb://db.example.org:27017/'',
     cs_serverSelectionTimeoutMS = 1000, cs_connectTimeoutMS = 2000,
     cs_socketTimeoutMS = 3000, cs_maxPoolSize = 5, cs_retryWrites = False\<rparr>"

definition connected_world :: world where
  "connected_world = sample_world\<lparr>connection := Some init_settings\<rparr>"

definition future_time :: datetime where
  "future_time = sample_time\<lparr>year := 2030\<rparr>"


section \<open>Serialization of the five classes\<close>

lemma spec_render_Time [simp]: "spec_render (TimeF t) = iso_or_none t"
  by (cases t) (simp_all add: iso_or_none_def)

lemma str_or_none_code_render [simp]: "code_render ''reminder_id'' (IdentF x) = str_or_none x"
  by (cases x) (simp_all add: code_render_def str_or_none_def)

lemma User_to_dict_by_stored:
  "User_to_dict u = code_serialize [''password_hash''] (User_stored u)"
  by (simp add: User_to_dict_def User_stored_def code_serialize_def code_render_def)

lemma Medication_to_dict_by_stored:
  "Medication_to_dict m = code_serialize [''user_username''] (Medication_stored m)"
  by (simp add: Medication_to_dict_def Medication_stored_def code_serialize_def code_render_def)

lemma Reminder_to_dict_by_stored:
  "Reminder_to_dict r = code_serialize [] (Reminder_stored r)"
  by (simp add: Reminder_to_dict_def Reminder_stored_def code_serialize_def code_render_def)

lemma MedicationLog_to_dict_by_stored:
  "MedicationLog_to_dict l = code_serialize [] (MedicationLog_stored l)"
  by (simp add: MedicationLog_to_dict_def MedicationLog_stored_def code_serialize_def)
     (simp add: code_render_def)

lemma PrescriptionUpload_to_dict_by_stored:
  "PrescriptionUpload_to_dict p = code_serialize [''file_path''] (PrescriptionUpload_stored p)"
  by (simp add: PrescriptionUpload_to_dict_def PrescriptionUpload_stored_def
      code_serialize_def code_render_def)

lemma zfill_numeral:
  "zfill (numeral k) n = zfill (pred_numeral k) (n div 10) @ [''0123456789'' ! (n mod 10)]"
  using zfill.simps(2)[of "pred_numeral k" n] by (simp only: numeral_eq_Suc[symmetric])

lemma length_zfill [simp]: "length (zfill k n) = k"
  by (induction k arbitrary: n) simp_all

text \<open>
  The text \<open>isoformat\<close> returns has the ISO-8601 layout: 19 characters, or 26 with
  the microseconds, and the separators in their places.
\<close>

lemma isoformat_shape:
  "length (isoformat d) = (if microsecond d = 0 then 19 else 26) \<and>
   isoformat d ! 4 = CHR ''-'' \<and> isoformat d ! 7 = CHR ''-'' \<and> isoformat d ! 10 = CHR ''T'' \<and>
   isoformat d ! 13 = CHR '':'' \<and> isoformat d ! 16 = CHR '':''"
  by (simp add: isoformat_def nth_append)

lemma isoformat_sample_time: "isoformat sample_time = ''2024-03-09T07:05:00''"
  by (simp add: isoformat_def sample_time_def zfill_numeral)

lemma fields_not_raw_datetime [simp]:
  "\<not> is_raw_datetime (str_field x)" "\<not> is_raw_datetime (bool_field b)"
  "\<not> is_raw_datetime (int_field i)" "\<not> is_raw_datetime (float_field f)"
  "\<not> is_raw_datetime (list_field xs)" "\<not> is_raw_datetime (iso_or_none t)"
  "\<not> is_raw_datetime (str_or_none y)"
  by (simp_all add: str_field_def bool_field_def int_field_def float_field_def list_field_def
      iso_or_none_def str_or_none_def split: option.splits)

lemma User_timestamps:
  "timestamps_rendered (User_stored u) (User_to_dict u) \<and> no_raw_datetime (User_to_dict u)"
  by (simp add: timestamps_rendered_def no_raw_datetime_def User_stored_def User_to_dict_def)

lemma Medication_timestamps:
  "timestamps_rendered (Medication_stored m) (Medication_to_dict m) \<and>
   no_raw_datetime (Medication_to_dict m)"
  by (simp add: timestamps_rendered_def no_raw_datetime_def Medication_stored_def
      Medication_to_dict_def)

lemma Reminder_timestamps:
  "timestamps_rendered (Reminder_stored r) (Reminder_to_dict r) \<and>
   no_raw_datetime (Reminder_to_dict r)"
  by (simp add: timestamps_rendered_def no_raw_datetime_def Reminder_stored_def
      Reminder_to_dict_def)

lemma MedicationLog_timestamps:
  "timestamps_rendered (MedicationLog_stored l) (MedicationLog_to_dict l) \<and>
   no_raw_datetime (MedicationLog_to_dict l)"
  by (simp add: timestamps_rendered_def no_raw_datetime_def MedicationLog_stored_def
      MedicationLog_to_dict_def)

lemma PrescriptionUpload_timestamps:
  "timestamps_rendered (PrescriptionUpload_stored p) (PrescriptionUpload_to_dict p) \<and>
   no_raw_datetime (PrescriptionUpload_to_dict p)"
  by (simp add: timestamps_rendered_def no_raw_datetime_def PrescriptionUpload_stored_def
      PrescriptionUpload_to_dict_def)

text \<open>
  C2, as stated, fails. \<open>User\<close> stores \<open>password_hash\<close>, and the specification's
  serialization would carry it under its own name, but \<open>User.to_dict\<close> has no such
  key. \<open>MedicationLog\<close> stores the identifier \<open>reminder_id\<close>, which the specification
  would render as a string, but \<open>MedicationLog.to_dict\<close> renders an unset one as null.
\<close>

theorem to_dict_not_every_stored_field:
  "map_of (spec_serialize (User_stored sample_user)) ''password_hash'' =
     Some (PStr ''pbkdf2:sha256:260000$salt$0123abcd'') \<and>
   map_of (User_to_dict sample_user) ''password_hash'' = None \<and>
   map_of (spec_serialize (MedicationLog_stored sample_log)) ''reminder_id'' =
     Some (PStr ''None'') \<and>
   map_of (MedicationLog_to_dict sample_log) ''reminder_id'' = Some PNone"
  by (simp add: spec_serialize_def User_stored_def User_to_dict_def sample_user_def
      MedicationLog_stored_def MedicationLog_to_dict_def sample_log_def str_field_def
      str_or_none_def)

text \<open>
  C2, amended. For each of the five classes \<open>to_dict\<close> returns exactly the stored
  fields in declaration order, each under its own name, an identifier as its string, a
  timestamp as its ISO-8601 text or null when unset, any other field unchanged; except
  that \<open>User.password_hash\<close>, \<open>Medication.user_username\<close> and
  \<open>PrescriptionUpload.file_path\<close> are left out, and an unset
  \<open>MedicationLog.reminder_id\<close> is null.
\<close>

theorem to_dict_serializes_stored_fields:
  "User_to_dict u = code_serialize [''password_hash''] (User_stored u) \<and>
   Medication_to_dict m = code_serialize [''user_username''] (Medication_stored m) \<and>
   Reminder_to_dict r = code_serialize [] (Reminder_stored r) \<and>
   MedicationLog_to_dict l = code_serialize [] (MedicationLog_stored l) \<and>
   PrescriptionUpload_to_dict p = code_serialize [''file_path''] (PrescriptionUpload_stored p)"
  using User_to_dict_by_stored Medication_to_dict_by_stored Reminder_to_dict_by_stored
    MedicationLog_to_dict_by_stored PrescriptionUpload_to_dict_by_stored
  by blast

section \<open>Serialization is a function of the stored state\<close>

text \<open>
  C9. For each of the five classes, \<open>to_dict\<close> reads only the stored fields of the
  record and changes nothing, so two records with the same stored state (in particular
  one unmutated record, serialized twice) give the same output; every timestamp field of
  the record is present in the output as its ISO-8601 text, or as null when unset; and no
  value in the output is a raw datetime object.
\<close>

theorem to_dict_pure_timestamps_as_text:
  "(User_stored u = User_stored u' \<longrightarrow> User_to_dict u = User_to_dict u') \<and>
   (Medication_stored m = Medication_stored m' \<longrightarrow>
      Medication_to_dict m = Medication_to_dict m') \<and>
   (Reminder_stored r = Reminder_stored r' \<longrightarrow> Reminder_to_dict r = Reminder_to_dict r') \<and>
   (MedicationLog_stored l = MedicationLog_stored l' \<longrightarrow>
      MedicationLog_to_dict l = MedicationLog_to_dict l') \<and>
   (PrescriptionUpload_stored p = PrescriptionUpload_stored p' \<longrightarrow>
      PrescriptionUpload_to_dict p = PrescriptionUpload_to_dict p') \<and>
   timestamps_rendered (User_stored u) (User_to_dict u) \<and>
   no_raw_datetime (User_to_dict u) \<and>
   timestamps_rendered (Medication_stored m) (Medication_to_dict m) \<and>
   no_raw_datetime (Medication_to_dict m) \<and>
   timestamps_rendered (Reminder_stored r) (Reminder_to_dict r) \<and>
   no_raw_datetime (Reminder_to_dict r) \<and>
   timestamps_rendered (MedicationLog_stored l) (MedicationLog_to_dict l) \<and>
   no_raw_datetime (MedicationLog_to_dict l) \<and>
   timestamps_rendered (PrescriptionUpload_stored p) (PrescriptionUpload_to_dict p) \<and>
   no_raw_datetime (PrescriptionUpload_to_dict p)"
  by (simp add: User_to_dict_by_stored Medication_to_dict_by_stored Reminder_to_dict_by_stored
      MedicationLog_to_dict_by_stored PrescriptionUpload_to_dict_by_stored
      User_timestamps [unfolded User_to_dict_by_stored]
      Medication_timestamps [unfolded Medication_to_dict_by_stored]
      Reminder_timestamps [unfolded Reminder_to_dict_by_stored]
      MedicationLog_timestamps [unfolded MedicationLog_to_dict_by_stored]
      PrescriptionUpload_timestamps [unfolded PrescriptionUpload_to_dict_by_stored])

theorem to_dict_pure_timestamps_as_text_witness:
  "User_stored sample_user = User_stored (sample_user\<lparr>u_phone := None\<rparr>) \<and>
   User_to_dict sample_user = User_to_dict (sample_user\<lparr>u_phone := None\<rparr>) \<and>
   map_of (User_to_dict sample_user) ''created_at'' = Some (PStr ''2024-03-09T07:05:00'') \<and>
   map_of (User_to_dict sample_user) ''last_login'' = Some PNone \<and>
   timestamps_rendered (User_stored sample_user) (User_to_dict sample_user) \<and>
   no_raw_datetime (User_to_dict sample_user) \<and>
   timestamps_rendered (Medication_stored sample_medication)
     (Medication_to_dict sample_medication) \<and>
   no_raw_datetime (Medication_to_dict sample_medication) \<and>
   timestamps_rendered (Reminder_stored sample_reminder) (Reminder_to_dict sample_reminder) \<and>
   no_raw_datetime (Reminder_to_dict sample_reminder) \<and>
   timestamps_rendered (MedicationLog_stored sample_log) (MedicationLog_to_dict sample_log) \<and>
   no_raw_datetime (MedicationLog_to_dict sample_log) \<and>
   timestamps_rendered (PrescriptionUpload_stored sample_upload)
     (PrescriptionUpload_to_dict sample_upload) \<and>
   no_raw_datetime (PrescriptionUpload_to_dict sample_upload)"
proof -
  have same: "User_stored sample_user = User_stored (sample_user\<lparr>u_phone := None\<rparr>)"
    by (simp add: User_stored_def sample_user_def)
  have shown: "map_of (User_to_dict sample_user) ''created_at'' =
      Some (PStr ''2024-03-09T07:05:00'') \<and>
    map_of (User_to_dict sample_user) ''last_login'' = Some PNone"
    by (simp add: User_to_dict_def sample_user_def iso_or_none_def isoformat_sample_time)
  show ?thesis
    using same shown
      to_dict_pure_timestamps_as_text [of sample_user "sample_user\<lparr>u_phone := None\<rparr>"
        sample_medication sample_medication sample_reminder sample_reminder
        sample_log sample_log sample_upload sample_upload]
    by blast
qed

section \<open>Serialization hides the password hash\<close>

text \<open>
  C10. The dictionary \<open>User.to_dict\<close> returns has no key \<open>password_hash\<close>, and it does
  not depend on the stored hash: replacing the hash of a user by any other value leaves
  the serialized output the same.
\<close>

theorem User_to_dict_hides_password_hash:
  "''password_hash'' \<notin> fst ` set (User_to_dict u) \<and>
   map_of (User_to_dict u) ''password_hash'' = None \<and>
   User_to_dict (u\<lparr>u_password_hash := h\<rparr>) = User_to_dict u"
  by (simp add: User_to_dict_def)

section \<open>Opening the connection\<close>

lemma init_mongodb_eq:
  "init_mongodb e app w =
     (case connect_error e init_settings of
        None \<Rightarrow> (Inr True, print (''Connected to MongoDB: '' @ MONGODB_URI @ DATABASE_NAME)
                    (w\<lparr>connection := Some init_settings\<rparr>))
      | Some err \<Rightarrow> (Inr False, print (''MongoDB connection failed: '' @ exn_str err)
                    (w\<lparr>connection := None\<rparr>)))"
  by (simp add: init_mongodb_def init_mongodb_try_def connect_def disconnect_def
      split: option.splits)


text \<open>
  C8, as stated, fails: called with settings of the caller's, \<open>init_mongodb\<close> succeeds
  and registers a connection to \<open>mongodb://localhost:27017/\<close>, not to the caller's
  address.
\<close>

theorem init_mongodb_caller_settings_unused:
  "fst (init_mongodb sample_env (Some other_settings) sample_world) = Inr True \<and>
   connection (snd (init_mongodb sample_env (Some other_settings) sample_world)) =
     Some init_settings \<and>
   cs_host init_settings = ''mongodb://localhost:27017/'' \<and>
   cs_host other_settings = ''mongodb://db.example.org:27017/'' \<and>
   init_settings \<noteq> other_settings"
  by (simp add: init_mongodb_eq sample_env_def print_def init_settings_def other_settings_def
      MONGODB_URI_def DATABASE_NAME_def)

text \<open>
  C8, amended. \<open>init_mongodb\<close> takes one optional argument, which it ignores: the
  outcome is the same for any two arguments. The connection it opens always has the
  fixed address \<open>mongodb://localhost:27017/\<close>, the fixed database \<open>medimorph_db\<close>
  and the fixed tunables: server selection timeout 5000 ms, connection timeout 10000 ms,
  socket timeout 20000 ms, pool size 50, retried writes.
\<close>

theorem init_mongodb_fixed_settings:
  "init_mongodb e app w = init_mongodb e app' w \<and>
   init_settings = \<lparr>cs_db = ''medimorph_db'', cs_host = ''mongodb://localhost:27017/'',
     cs_serverSelectionTimeoutMS = 5000, cs_connectTimeoutMS = 10000,
     cs_socketTimeoutMS = 20000, cs_maxPoolSize = 50, cs_retryWrites = True\<rparr> \<and>
   connection (snd (init_mongodb e app w)) =
     (if fst (init_mongodb e app w) = Inr True then Some init_settings else None)"
  by (cases "connect_error e init_settings")
     (simp_all add: init_mongodb_eq print_def init_settings_def MONGODB_URI_def DATABASE_NAME_def)

section \<open>Collection counts\<close>

lemma objects_count_eq:
  "objects_count e coll w =
     (if connection w = None
      then (Inl (ConnectionFailure ''You have not defined a default connection''), w)
      else case server_error e (op_count w) of
             Some err \<Rightarrow> (Inl err, w\<lparr>op_count := Suc (op_count w)\<rparr>)
           | None \<Rightarrow> (Inr (int (length (coll (w\<lparr>op_count := Suc (op_count w)\<rparr>)))),
                       w\<lparr>op_count := Suc (op_count w)\<rparr>))"
  by (simp add: objects_count_def db_operation_def split: option.splits)

text \<open>
  C7. \<open>get_database_stats\<close> raises nothing and returns either null or a dictionary
  with exactly the five keys \<open>users\<close>, \<open>medications\<close>, \<open>reminders\<close>,
  \<open>medication_logs\<close> and \<open>prescription_uploads\<close>, each with the size of its
  collection. It returns the dictionary exactly when a connection is registered and none
  of the five counts fails; otherwise null, never a part of the counts.
\<close>

theorem get_database_stats_all_or_nothing:
  "\<exists>r w'. get_database_stats e w = (Inr r, w') \<and>
     (r \<noteq> None) = (connection w \<noteq> None \<and>
        list_all (\<lambda>i. server_error e (op_count w + i) = None) [0, 1, 2, 3, 4]) \<and>
     (r = None \<or>
      r = Some [(''users'', PInt (int (length (users w)))),
                (''medications'', PInt (int (length (medications w)))),
                (''reminders'', PInt (int (length (reminders w)))),
                (''medication_logs'', PInt (int (length (medication_logs w)))),
                (''prescription_uploads'', PInt (int (length (prescription_uploads w))))])"
  by (auto simp add: get_database_stats_def get_database_stats_try_def objects_count_eq
      eval_nat_numeral split: option.splits)

section \<open>Persisting\<close>

lemma overwrite_mem: "self \<in> set (overwrite ident self ds)"
  by (induction ds) simp_all

lemma Document_save_cases:
  "Document_save validate ident with_id coll put not_unique e self w = (r, w') \<Longrightarrow>
     (\<exists>err. r = Inl err) \<or>
     (ident self = None \<and> r = Inr (with_id (new_objectid e (oid_count w)) self) \<and>
        validate self = [] \<and>
        w' = put (coll (w\<lparr>op_count := Suc (op_count w)\<rparr>) @
                    [with_id (new_objectid e (oid_count w)) self])
               (w\<lparr>op_count := Suc (op_count w), oid_count := Suc (oid_count w)\<rparr>)) \<or>
     (ident self \<noteq> None \<and> r = Inr self \<and> validate self = [] \<and>
        w' = put (overwrite ident self (coll (w\<lparr>op_count := Suc (op_count w)\<rparr>)))
               (w\<lparr>op_count := Suc (op_count w)\<rparr>))"
  by (auto simp add: Document_save_def db_operation_def Let_def
      split: list.splits option.splits prod.splits sum.splits)

lemma Document_save_invalid:
  "validate self \<noteq> [] \<Longrightarrow>
     Document_save validate ident with_id coll put not_unique e self w =
       (Inl (ValidationError (validate self)), w)"
  by (simp add: Document_save_def split: list.splits)

lemma Document_save_valid:
  "validate self = [] \<Longrightarrow> connection w \<noteq> None \<Longrightarrow> server_error e (op_count w) = None \<Longrightarrow>
     not_unique self (coll (w\<lparr>op_count := Suc (op_count w)\<rparr>)) = None \<Longrightarrow>
     \<exists>saved w'. Document_save validate ident with_id coll put not_unique e self w = (Inr saved, w')"
  by (auto simp add: Document_save_def db_operation_def Let_def split: option.splits)

lemma Medication_save_updated_at:
  "m_updated_at (fst (snd (Medication_save e m w))) = Some (utcnow e (clock_ticks w))"
  by (auto simp add: Medication_save_def Let_def split: prod.splits sum.splits
      dest!: Document_save_cases)

lemma Reminder_save_updated_at:
  "r_updated_at (fst (snd (Reminder_save e r w))) = Some (utcnow e (clock_ticks w))"
  by (auto simp add: Reminder_save_def Let_def split: prod.splits sum.splits
      dest!: Document_save_cases)

lemma Medication_save_stored:
  "Medication_save e m w = (Inr saved, self', w') \<Longrightarrow>
     self' = saved \<and> saved \<in> set (medications w') \<and>
     m_updated_at saved = Some (utcnow e (clock_ticks w))"
  by (auto simp add: Medication_save_def Let_def overwrite_mem split: prod.splits sum.splits
      dest!: Document_save_cases)

lemma Reminder_save_stored:
  "Reminder_save e r w = (Inr saved, self', w') \<Longrightarrow>
     self' = saved \<and> saved \<in> set (reminders w') \<and>
     r_updated_at saved = Some (utcnow e (clock_ticks w))"
  by (auto simp add: Reminder_save_def Let_def overwrite_mem split: prod.splits sum.splits
      dest!: Document_save_cases)

lemma Medication_save_sample:
  "\<exists>w'. Medication_save sample_env (sample_medication\<lparr>m_updated_at := Some t\<rparr>)
           connected_world =
     (Inr (sample_medication\<lparr>m_updated_at := Some (sample_time\<lparr>microsecond := 1\<rparr>)\<rparr>),
      sample_medication\<lparr>m_updated_at := Some (sample_time\<lparr>microsecond := 1\<rparr>)\<rparr>, w')"
  by (simp add: Medication_save_def Document_save_def Medication_validate_def
      sample_medication_def check_required_def check_string_def db_operation_def
      connected_world_def sample_world_def sample_env_def no_unique_index_def Let_def)

text \<open>
  C3, as stated, fails. A medication whose \<open>updated_at\<close> the caller has set to the year
  2030 is persisted at a clock reading in 2024: the call succeeds and leaves
  \<open>updated_at\<close> at the clock reading, which is earlier than the value before the call.
\<close>

theorem save_can_move_updated_at_back:
  "m_updated_at (sample_medication\<lparr>m_updated_at := Some future_time\<rparr>) = Some future_time \<and>
   utcnow sample_env (clock_ticks connected_world) = sample_time\<lparr>microsecond := 1\<rparr> \<and>
   fst (Medication_save sample_env (sample_medication\<lparr>m_updated_at := Some future_time\<rparr>)
          connected_world) =
     Inr (sample_medication\<lparr>m_updated_at := Some (sample_time\<lparr>microsecond := 1\<rparr>)\<rparr>) \<and>
   m_updated_at (fst (snd (Medication_save sample_env
       (sample_medication\<lparr>m_updated_at := Some future_time\<rparr>) connected_world))) =
     Some (sample_time\<lparr>microsecond := 1\<rparr>) \<and>
   \<not> dt_le future_time (sample_time\<lparr>microsecond := 1\<rparr>)"
proof -
  obtain w' where "Medication_save sample_env
      (sample_medication\<lparr>m_updated_at := Some future_time\<rparr>) connected_world =
     (Inr (sample_medication\<lparr>m_updated_at := Some (sample_time\<lparr>microsecond := 1\<rparr>)\<rparr>),
      sample_medication\<lparr>m_updated_at := Some (sample_time\<lparr>microsecond := 1\<rparr>)\<rparr>, w')"
    using Medication_save_sample by blast
  moreover have "\<not> dt_le future_time (sample_time\<lparr>microsecond := 1\<rparr>)"
    by (simp add: dt_le_def dt_key_def future_time_def sample_time_def less_eq_prod_def)
  moreover have "utcnow sample_env (clock_ticks connected_world) =
      sample_time\<lparr>microsecond := 1\<rparr>"
    by (simp add: sample_env_def connected_world_def sample_world_def)
  ultimately show ?thesis by simp
qed

text \<open>
  C3, amended. For every \<open>Medication\<close> and every \<open>Reminder\<close>, every call to
  \<open>save\<close> unconditionally sets \<open>updated_at\<close> to the reading of the clock taken by that
  call, whatever the field held before and whether or not the write then succeeds; when
  the write succeeds, the stored record carries that reading. So after the call
  \<open>updated_at\<close> is greater than or equal to its value before whenever that value was
  not later than the clock reading.
\<close>

theorem save_sets_updated_at_to_clock:
  "m_updated_at (fst (snd (Medication_save e m w))) = Some (utcnow e (clock_ticks w)) \<and>
   r_updated_at (fst (snd (Reminder_save e r w))) = Some (utcnow e (clock_ticks w)) \<and>
   (Medication_save e m w = (Inr saved_m, m', wm) \<longrightarrow>
      m' = saved_m \<and> saved_m \<in> set (medications wm) \<and>
      m_updated_at saved_m = Some (utcnow e (clock_ticks w))) \<and>
   (Reminder_save e r w = (Inr saved_r, r', wr) \<longrightarrow>
      r' = saved_r \<and> saved_r \<in> set (reminders wr) \<and>
      r_updated_at saved_r = Some (utcnow e (clock_ticks w))) \<and>
   (m_updated_at m = Some before_m \<and> dt_le before_m (utcnow e (clock_ticks w)) \<longrightarrow>
      (\<exists>after. m_updated_at (fst (snd (Medication_save e m w))) = Some after \<and>
         dt_le before_m after)) \<and>
   (r_updated_at r = Some before_r \<and> dt_le before_r (utcnow e (clock_ticks w)) \<longrightarrow>
      (\<exists>after. r_updated_at (fst (snd (Reminder_save e r w))) = Some after \<and>
         dt_le before_r after))"
  using Medication_save_stored [of e m w saved_m m' wm]
    Reminder_save_stored [of e r w saved_r r' wr]
  by (simp add: Medication_save_updated_at Reminder_save_updated_at)

theorem save_sets_updated_at_to_clock_witness:
  "m_updated_at sample_medication = Some sample_time \<and>
   dt_le sample_time (utcnow sample_env (clock_ticks connected_world)) \<and>
   (\<exists>w'. Medication_save sample_env sample_medication connected_world =
      (Inr (sample_medication\<lparr>m_updated_at := Some (sample_time\<lparr>microsecond := 1\<rparr>)\<rparr>),
       sample_medication\<lparr>m_updated_at := Some (sample_time\<lparr>microsecond := 1\<rparr>)\<rparr>, w') \<and>
      sample_medication\<lparr>m_updated_at := Some (sample_time\<lparr>microsecond := 1\<rparr>)\<rparr>
        \<in> set (medications w')) \<and>
   (\<exists>after. m_updated_at (fst (snd (Medication_save sample_env sample_medication
        connected_world))) = Some after \<and> dt_le sample_time after) \<and>
   r_updated_at (fst (snd (Reminder_save sample_env sample_reminder connected_world))) =
     Some (sample_time\<lparr>microsecond := 1\<rparr>)"
proof -
  have before: "m_updated_at sample_medication = Some sample_time"
    by (simp add: sample_medication_def)
  have now: "utcnow sample_env (clock_ticks connected_world) = sample_time\<lparr>microsecond := 1\<rparr>"
    by (simp add: sample_env_def connected_world_def sample_world_def)
  have le: "dt_le sample_time (utcnow sample_env (clock_ticks connected_world))"
    by (simp add: now dt_le_def dt_key_def sample_time_def less_eq_prod_def)
  obtain w' where run: "Medication_save sample_env sample_medication connected_world =
     (Inr (sample_medication\<lparr>m_updated_at := Some (sample_time\<lparr>microsecond := 1\<rparr>)\<rparr>),
      sample_medication\<lparr>m_updated_at := Some (sample_time\<lparr>microsecond := 1\<rparr>)\<rparr>, w')"
    using Medication_save_sample [of sample_time] by (auto simp add: sample_medication_def)
  show ?thesis
    using before le run now
      save_sets_updated_at_to_clock [of sample_env sample_medication connected_world
        sample_reminder
        "sample_medication\<lparr>m_updated_at := Some (sample_time\<lparr>microsecond := 1\<rparr>)\<rparr>"
        "sample_medication\<lparr>m_updated_at := Some (sample_time\<lparr>microsecond := 1\<rparr>)\<rparr>" w'
        _ _ _ sample_time]
    by auto
qed

section \<open>Enumerated status fields\<close>

lemma check_required_key:
  "(k \<in> fst ` set (check_required name v)) = (k = name \<and> v = None)"
  by (cases v) (simp_all add: check_required_def)

lemma check_string_key:
  "(k \<in> fst ` set (check_string name rq ch ml v)) =
     (k = name \<and>
      (case v of
         None \<Rightarrow> rq
       | Some s \<Rightarrow> ch \<noteq> [] \<and> s \<notin> set ch \<or> (\<exists>n. ml = Some n \<and> n < length s)))"
  by (cases v; cases ml) (auto simp add: check_string_def)

lemma MedicationLog_status_error:
  "(''status'' \<in> fst ` set (MedicationLog_validate l)) =
     (\<exists>s. l_status l = Some s \<and> s \<notin> {''taken'', ''missed'', ''delayed''})"
  by (cases "l_status l")
     (simp_all add: MedicationLog_validate_def image_Un check_required_key check_string_key)

lemma PrescriptionUpload_status_error:
  "(''processing_status'' \<in> fst ` set (PrescriptionUpload_validate p)) =
     (\<exists>s. p_processing_status p = Some s \<and>
        s \<notin> {''pending'', ''processing'', ''completed'', ''failed''})"
  by (cases "p_processing_status p")
     (simp_all add: PrescriptionUpload_validate_def image_Un check_required_key
        check_string_key)

lemma MedicationLog_valid:
  "l_user_id l \<noteq> None \<Longrightarrow> l_medication_id l \<noteq> None \<Longrightarrow> within 50 (l_dosage_taken l) \<Longrightarrow>
   within 500 (l_notes l) \<Longrightarrow> l_status l = Some s \<Longrightarrow>
   s \<in> {''taken'', ''missed'', ''delayed''} \<Longrightarrow> MedicationLog_validate l = []"
  by (auto simp add: MedicationLog_validate_def check_required_def check_string_def within_def
      split: option.splits)

lemma PrescriptionUpload_valid:
  "p_user_id p \<noteq> None \<Longrightarrow> p_filename p \<noteq> None \<Longrightarrow> p_original_filename p \<noteq> None \<Longrightarrow>
   p_file_path p \<noteq> None \<Longrightarrow> p_processing_status p = Some s \<Longrightarrow>
   s \<in> {''pending'', ''processing'', ''completed'', ''failed''} \<Longrightarrow>
   PrescriptionUpload_validate p = []"
  by (auto simp add: PrescriptionUpload_validate_def check_required_def check_string_def
      split: option.splits)

text \<open>
  C4. Persisting a \<open>MedicationLog\<close> whose \<open>status\<close> is outside \<open>taken\<close>,
  \<open>missed\<close>, \<open>delayed\<close> fails with a validation error that names the field
  \<open>status\<close> and writes nothing; a status inside the set never puts \<open>status\<close> among
  the errors, and the record is accepted when its other fields are valid and the
  database answers. The same holds for \<open>PrescriptionUpload\<close> and its
  \<open>processing_status\<close> with \<open>pending\<close>, \<open>processing\<close>, \<open>completed\<close>,
  \<open>failed\<close>.
\<close>

theorem status_choices_enforced:
  "(l_status l = Some s \<and> s \<notin> {''taken'', ''missed'', ''delayed''} \<longrightarrow>
      (\<exists>errs. MedicationLog_save e l w = (Inl (ValidationError errs), w) \<and>
         ''status'' \<in> fst ` set errs)) \<and>
   (l_status l = Some s \<and> s \<in> {''taken'', ''missed'', ''delayed''} \<longrightarrow>
      ''status'' \<notin> fst ` set (MedicationLog_validate l) \<and>
      (l_user_id l \<noteq> None \<and> l_medication_id l \<noteq> None \<and> within 50 (l_dosage_taken l) \<and>
       within 500 (l_notes l) \<and> connection w \<noteq> None \<and> server_error e (op_count w) = None \<longrightarrow>
         (\<exists>saved w'. MedicationLog_save e l w = (Inr saved, w')))) \<and>
   (p_processing_status p = Some t \<and>
    t \<notin> {''pending'', ''processing'', ''completed'', ''failed''} \<longrightarrow>
      (\<exists>errs. PrescriptionUpload_save e p w = (Inl (ValidationError errs), w) \<and>
         ''processing_status'' \<in> fst ` set errs)) \<and>
   (p_processing_status p = Some t \<and>
    t \<in> {''pending'', ''processing'', ''completed'', ''failed''} \<longrightarrow>
      ''processing_status'' \<notin> fst ` set (PrescriptionUpload_validate p) \<and>
      (p_user_id p \<noteq> None \<and> p_filename p \<noteq> None \<and> p_original_filename p \<noteq> None \<and>
       p_file_path p \<noteq> None \<and> connection w \<noteq> None \<and> server_error e (op_count w) = None \<longrightarrow>
         (\<exists>saved w'. PrescriptionUpload_save e p w = (Inr saved, w'))))"
proof (intro conjI impI)
  assume a: "l_status l = Some s \<and> s \<notin> {''taken'', ''missed'', ''delayed''}"
  then have bad: "''status'' \<in> fst ` set (MedicationLog_validate l)"
    by (simp only: MedicationLog_status_error) blast
  then have "MedicationLog_validate l \<noteq> []" by auto
  then have "MedicationLog_save e l w = (Inl (ValidationError (MedicationLog_validate l)), w)"
    by (simp add: MedicationLog_save_def Document_save_invalid)
  with bad show "\<exists>errs. MedicationLog_save e l w = (Inl (ValidationError errs), w) \<and>
      ''status'' \<in> fst ` set errs" by blast
next
  assume "l_status l = Some s \<and> s \<in> {''taken'', ''missed'', ''delayed''}"
  then show "''status'' \<notin> fst ` set (MedicationLog_validate l)"
    by (simp only: MedicationLog_status_error) auto
next
  assume a: "l_status l = Some s \<and> s \<in> {''taken'', ''missed'', ''delayed''}"
    and b: "l_user_id l \<noteq> None \<and> l_medication_id l \<noteq> None \<and> within 50 (l_dosage_taken l) \<and>
       within 500 (l_notes l) \<and> connection w \<noteq> None \<and> server_error e (op_count w) = None"
  from a b have "MedicationLog_validate l = []"
    using MedicationLog_valid [of l s] by blast
  with b show "\<exists>saved w'. MedicationLog_save e l w = (Inr saved, w')"
    unfolding MedicationLog_save_def
    by (intro Document_save_valid) (simp_all add: no_unique_index_def)
next
  assume a: "p_processing_status p = Some t \<and>
    t \<notin> {''pending'', ''processing'', ''completed'', ''failed''}"
  then have bad: "''processing_status'' \<in> fst ` set (PrescriptionUpload_validate p)"
    by (simp only: PrescriptionUpload_status_error) blast
  then have "PrescriptionUpload_validate p \<noteq> []" by auto
  then have "PrescriptionUpload_save e p w =
      (Inl (ValidationError (PrescriptionUpload_validate p)), w)"
    by (simp add: PrescriptionUpload_save_def Document_save_invalid)
  with bad show "\<exists>errs. PrescriptionUpload_save e p w = (Inl (ValidationError errs), w) \<and>
      ''processing_status'' \<in> fst ` set errs" by blast
next
  assume "p_processing_status p = Some t \<and>
    t \<in> {''pending'', ''processing'', ''completed'', ''failed''}"
  then show "''processing_status'' \<notin> fst ` set (PrescriptionUpload_validate p)"
    by (simp only: PrescriptionUpload_status_error) auto
next
  assume a: "p_processing_status p = Some t \<and>
    t \<in> {''pending'', ''processing'', ''completed'', ''failed''}"
    and b: "p_user_id p \<noteq> None \<and> p_filename p \<noteq> None \<and> p_original_filename p \<noteq> None \<and>
       p_file_path p \<noteq> None \<and> connection w \<noteq> None \<and> server_error e (op_count w) = None"
  from a b have "PrescriptionUpload_validate p = []"
    using PrescriptionUpload_valid [of p t] by blast
  with b show "\<exists>saved w'. PrescriptionUpload_save e p w = (Inr saved, w')"
    unfolding PrescriptionUpload_save_def
    by (intro Document_save_valid) (simp_all add: no_unique_index_def)
qed

theorem status_choices_enforced_witness:
  "l_status (sample_log\<lparr>l_status := Some ''skipped''\<rparr>) = Some ''skipped'' \<and>
   ''skipped'' \<notin> {''taken'', ''missed'', ''delayed''} \<and>
   (\<exists>errs. MedicationLog_save sample_env (sample_log\<lparr>l_status := Some ''skipped''\<rparr>)
        connected_world = (Inl (ValidationError errs), connected_world) \<and>
      ''status'' \<in> fst ` set errs) \<and>
   l_status sample_log = Some ''taken'' \<and>
   (\<exists>saved w'. MedicationLog_save sample_env sample_log connected_world = (Inr saved, w')) \<and>
   p_processing_status (sample_upload\<lparr>p_processing_status := Some ''done''\<rparr>) = Some ''done'' \<and>
   ''done'' \<notin> {''pending'', ''processing'', ''completed'', ''failed''} \<and>
   (\<exists>errs. PrescriptionUpload_save sample_env
        (sample_upload\<lparr>p_processing_status := Some ''done''\<rparr>) connected_world =
        (Inl (ValidationError errs), connected_world) \<and>
      ''processing_status'' \<in> fst ` set errs) \<and>
   p_processing_status sample_upload = Some ''pending'' \<and>
   (\<exists>saved w'. PrescriptionUpload_save sample_env sample_upload connected_world =
      (Inr saved, w'))"
proof -
  have env: "connection connected_world \<noteq> None \<and>
      server_error sample_env (op_count connected_world) = None"
    by (simp add: connected_world_def sample_env_def)
  have log: "l_status sample_log = Some ''taken'' \<and> l_user_id sample_log \<noteq> None \<and>
      l_medication_id sample_log \<noteq> None \<and> within 50 (l_dosage_taken sample_log) \<and>
      within 500 (l_notes sample_log)"
    by (simp add: sample_log_def within_def)
  have upload: "p_processing_status sample_upload = Some ''pending'' \<and>
      p_user_id sample_upload \<noteq> None \<and> p_filename sample_upload \<noteq> None \<and>
      p_original_filename sample_upload \<noteq> None \<and> p_file_path sample_upload \<noteq> None"
    by (simp add: sample_upload_def)
  have bad: "l_status (sample_log\<lparr>l_status := Some ''skipped''\<rparr>) = Some ''skipped'' \<and>
      ''skipped'' \<notin> {''taken'', ''missed'', ''delayed''} \<and>
      p_processing_status (sample_upload\<lparr>p_processing_status := Some ''done''\<rparr>) = Some ''done'' \<and>
      ''done'' \<notin> {''pending'', ''processing'', ''completed'', ''failed''}"
    by simp
  show ?thesis
    using env log upload bad
      status_choices_enforced [of "sample_log\<lparr>l_status := Some ''skipped''\<rparr>" "''skipped''"
        sample_env connected_world "sample_upload\<lparr>p_processing_status := Some ''done''\<rparr>"
        "''done''"]
      status_choices_enforced [of sample_log "''taken''" sample_env connected_world
        sample_upload "''pending''"]
    by simp
qed

section \<open>Seeding the default users\<close>

lemma present_op_count [simp]: "present (w\<lparr>op_count := n\<rparr>) s = present w s"
  by (simp add: present_def)














section \<open>Passwords\<close>

text \<open>
  \<open>set_password\<close> stores what \<open>generate_password_hash\<close> returns and nothing else
  of the plaintext, and \<open>check_password\<close> afterwards is \<open>check_password_hash\<close> on
  that stored hash. Whether the answer is true for the same plaintext and false for any
  other one is decided inside \<open>werkzeug.security\<close>.
\<close>

lemma check_password_after_set_password:
  "u_password_hash (set_password e p self) = Some (generate_password_hash e p) \<and>
   check_password e q (set_password e p self) =
     Inr (check_password_hash e (generate_password_hash e p) q)"
  by (simp add: set_password_def check_password_def)

end
